theory Spec2Isabelle
  imports Complex_Main
begin

section \<open>JavaScript strings\<close>

text \<open>
  A JavaScript string is a sequence of UTF-16 code units; \<open>length\<close>, \<open>substring\<close>,
  \<open>replace\<close>, \<open>trim\<close> and the regular-expression engine (without the \<open>u\<close> flag) all work
  on code units. A code unit is modelled by its number, a string by the list of them.
  \<open>js\<close> reads an ASCII literal as such a string.
\<close>

type_synonym jsstring = "nat list"

definition js :: "string \<Rightarrow> jsstring" where
  "js s = map of_char s"

text \<open>
  \<open>String.prototype.includes\<close>, here \<open>js_includes\<close>: does the string contain the other
  as a contiguous part.
\<close>

primrec startsWith :: "'a list \<Rightarrow> 'a list \<Rightarrow> bool" where
  "startsWith s [] = True"
| "startsWith s (c # cs) = (case s of [] \<Rightarrow> False | x # xs \<Rightarrow> x = c \<and> startsWith xs cs)"

primrec js_includes :: "'a list \<Rightarrow> 'a list \<Rightarrow> bool" where
  "js_includes [] sub = (sub = [])"
| "js_includes (x # xs) sub = (startsWith (x # xs) sub \<or> js_includes xs sub)"

text \<open>
  \<open>String.prototype.toUpperCase\<close> and \<open>toLowerCase\<close> belong to the runtime and follow
  the Unicode case tables. A function of the program that calls one of them takes it as
  its first argument, named \<open>toUpperCase\<close> or \<open>toLowerCase\<close>, so that what is proved
  holds whatever the tables say. On strings of ASCII code units the two are the functions
  below; they are used to run the program on ASCII inputs.
\<close>

definition ascii_toUpperCase :: "jsstring \<Rightarrow> jsstring" where
  "ascii_toUpperCase s = map (\<lambda>c. if 97 \<le> c \<and> c \<le> 122 then c - 32 else c) s"


section \<open>Error handling module (error-handling.ts): classification\<close>

datatype ErrorCategory = network | wallet | transaction | validation | rate_limit | timeout | unknown

text \<open>The severity \<open>error\<close> is written \<open>error_severity\<close>.\<close>

datatype ErrorSeverity = info | warning | error_severity | critical

text \<open>
  What a failed operation throws: an \<open>Error\<close> object with its message, or a value that is
  not an instance of \<open>Error\<close>.
\<close>

datatype thrown = Error jsstring | NotAnError

record AppError =
  code :: string
  category :: ErrorCategory
  severity :: ErrorSeverity
  message :: string
  userMessage :: string
  actionableGuidance :: "string option"
  retryable :: bool
  originalError :: "thrown option"
  timestamp :: int






section \<open>Error handling module (error-handling.ts): backoff and retry\<close>

text \<open>
  Numbers are exact reals; the rounding of the IEEE doubles of the runtime is not modelled.
  \<open>maxRetries\<close> counts attempts and is an integer, possibly negative.
\<close>

record BackoffConfig =
  initialDelayMs :: real
  maxDelayMs :: real
  maxRetries :: int
  backoffMultiplier :: real
  jitterFactor :: real

definition DEFAULT_BACKOFF_CONFIG :: BackoffConfig where
  "DEFAULT_BACKOFF_CONFIG =
     \<lparr> initialDelayMs = 1000, maxDelayMs = 30000, maxRetries = 3, backoffMultiplier = 2,
       jitterFactor = 0.1 \<rparr>"

text \<open>\<open>Math.round\<close>: the nearest integer, a half rounded up.\<close>

definition Math_round :: "real \<Rightarrow> real" where
  "Math_round x = of_int \<lfloor>x + 1 / 2\<rfloor>"

text \<open>
  \<open>calculateBackoffDelay\<close>; \<open>rnd\<close> is the value \<open>Math.random()\<close> returns, a number from 0
  up to but not including 1.
\<close>

definition calculateBackoffDelay :: "real \<Rightarrow> nat \<Rightarrow> BackoffConfig \<Rightarrow> real" where
  "calculateBackoffDelay rnd attempt config =
     (let baseDelay = min (initialDelayMs config * backoffMultiplier config ^ attempt)
                          (maxDelayMs config);
          jitter = baseDelay * jitterFactor config * (rnd * 2 - 1)
      in max 0 (Math_round (baseDelay + jitter)))"
















section \<open>Security module (schemas.ts): the approval state machine\<close>

datatype ApprovalState = pending_review | user_approved | user_rejected | expired

datatype TransactionType = swap | transfer | approval

record TransactionDetails =
  ttype :: TransactionType
  tokenIn :: "jsstring option"
  tokenOut :: "jsstring option"
  amount :: "jsstring option"
  chain :: jsstring
  to :: "jsstring option"

text \<open>
  Timestamps are the integers \<open>Date.now()\<close> returns (milliseconds); the optional fields
  \<open>approvedAt\<close> and \<open>rejectedAt\<close> are \<open>None\<close> while unset.
\<close>

record TransactionApproval =
  id :: jsstring
  state :: ApprovalState
  createdAt :: int
  approvedAt :: "int option"
  rejectedAt :: "int option"
  expiresAt :: int
  transactionDetails :: TransactionDetails

definition APPROVAL_EXPIRATION_MS :: int where
  "APPROVAL_EXPIRATION_MS = 5 * 60 * 1000"

text \<open>
  Every function that reads the clock takes the value of \<open>Date.now()\<close> as its first
  argument \<open>now\<close>. \<open>createTransactionApproval\<close> also takes the random suffix of the id.
\<close>

definition requiresUserApproval :: "int \<Rightarrow> TransactionApproval \<Rightarrow> bool" where
  "requiresUserApproval now a =
     (if state a \<noteq> pending_review \<and> state a \<noteq> user_approved then True
      else if now > expiresAt a then True
      else state a \<noteq> user_approved)"

definition createTransactionApproval ::
    "int \<Rightarrow> jsstring \<Rightarrow> TransactionDetails \<Rightarrow> TransactionApproval" where
  "createTransactionApproval now ident details =
     \<lparr> id = ident, state = pending_review, createdAt = now, approvedAt = None,
       rejectedAt = None, expiresAt = now + APPROVAL_EXPIRATION_MS,
       transactionDetails = details \<rparr>"

definition approveTransaction :: "int \<Rightarrow> TransactionApproval \<Rightarrow> TransactionApproval" where
  "approveTransaction now a =
     (if now > expiresAt a then a\<lparr>state := expired\<rparr>
      else a\<lparr>state := user_approved, approvedAt := Some now\<rparr>)"

definition rejectTransaction :: "int \<Rightarrow> TransactionApproval \<Rightarrow> TransactionApproval" where
  "rejectTransaction now a = a\<lparr>state := user_rejected, rejectedAt := Some now\<rparr>"

definition isApprovalValid :: "int \<Rightarrow> TransactionApproval \<Rightarrow> bool" where
  "isApprovalValid now a = (now \<le> expiresAt a \<and> state a \<noteq> expired)"

text \<open>A sample approval, created at time 1000 for a swap on Base, used to run the functions.\<close>

definition sample_details :: TransactionDetails where
  "sample_details =
     \<lparr> ttype = swap, tokenIn = Some (js ''ETH''), tokenOut = Some (js ''USDC''),
       amount = Some (js ''100''), chain = js ''base'', to = None \<rparr>"

definition sample_approval :: TransactionApproval where
  "sample_approval = createTransactionApproval 1000 (js ''tx-1000-abc'') sample_details"

section \<open>Security module (schemas.ts): regular expressions\<close>

text \<open>
  The patterns of the module use literal characters, \<open>\s\<close>, one character class,
  grouping with alternatives, and the quantifiers \<open>?\<close>, \<open>*\<close>, \<open>+\<close> and \<open>{40}\<close>; all carry the
  flag \<open>i\<close> and no other flag. \<open>regex\<close> is the syntax tree of such a pattern.
\<close>

datatype regex =
    Chr char
  | WhiteSpaceClass
  | HexDigitClass
  | Seq regex regex
  | Alt regex regex
  | Opt regex
  | Star regex
  | Plus regex
  | Times nat regex
  | Empty

text \<open>
  Under the flag \<open>i\<close> two code units match when their canonical forms agree. The engine's
  canonical form of an ASCII letter is its upper case, and that of a code unit from 128 on
  is never an ASCII code unit; since every literal of the patterns is ASCII, leaving the
  code units outside \<open>a\<close> to \<open>z\<close> alone decides the same matches.
\<close>

definition canonicalize :: "nat \<Rightarrow> nat" where
  "canonicalize c = (if 97 \<le> c \<and> c \<le> 122 then c - 32 else c)"

text \<open>
  \<open>\s\<close>, and also \<open>trim\<close>, take the white space and line terminator code units: TAB, LF,
  VT, FF, CR, SP, NBSP, U+1680, U+2000 to U+200A, U+2028, U+2029, U+202F, U+205F, U+3000
  and U+FEFF.
\<close>

definition isWhiteSpace :: "nat \<Rightarrow> bool" where
  "isWhiteSpace c =
     (c = 9 \<or> c = 10 \<or> c = 11 \<or> c = 12 \<or> c = 13 \<or> c = 32 \<or> c = 160 \<or> c = 5760
      \<or> (8192 \<le> c \<and> c \<le> 8202) \<or> c = 8232 \<or> c = 8233 \<or> c = 8239 \<or> c = 8287
      \<or> c = 12288 \<or> c = 65279)"

text \<open>The class \<open>[a-fA-F0-9]\<close>.\<close>

definition isHexDigit :: "nat \<Rightarrow> bool" where
  "isHexDigit c = ((48 \<le> c \<and> c \<le> 57) \<or> (65 \<le> canonicalize c \<and> canonicalize c \<le> 70))"

text \<open>
  The matcher follows the engine's own formulation: a matcher takes the continuation \<open>k\<close>
  that has to accept the rest of the input. An iteration of \<open>*\<close> or \<open>+\<close> that consumes
  nothing is of no use, so at most \<open>length s\<close> iterations are tried.
\<close>

primrec repeat_upto ::
    "nat \<Rightarrow> ((jsstring \<Rightarrow> bool) \<Rightarrow> jsstring \<Rightarrow> bool) \<Rightarrow> (jsstring \<Rightarrow> bool) \<Rightarrow> jsstring \<Rightarrow> bool" where
  "repeat_upto 0 f k s = k s"
| "repeat_upto (Suc n) f k s = (f (repeat_upto n f k) s \<or> k s)"

primrec repeat_exactly ::
    "nat \<Rightarrow> ((jsstring \<Rightarrow> bool) \<Rightarrow> jsstring \<Rightarrow> bool) \<Rightarrow> (jsstring \<Rightarrow> bool) \<Rightarrow> jsstring \<Rightarrow> bool" where
  "repeat_exactly 0 f k s = k s"
| "repeat_exactly (Suc n) f k s = f (repeat_exactly n f k) s"

primrec matcher :: "regex \<Rightarrow> (jsstring \<Rightarrow> bool) \<Rightarrow> jsstring \<Rightarrow> bool" where
  "matcher Empty k s = k s"
| "matcher (Chr c) k s =
     (case s of [] \<Rightarrow> False | x # xs \<Rightarrow> canonicalize x = canonicalize (of_char c) \<and> k xs)"
| "matcher WhiteSpaceClass k s = (case s of [] \<Rightarrow> False | x # xs \<Rightarrow> isWhiteSpace x \<and> k xs)"
| "matcher HexDigitClass k s = (case s of [] \<Rightarrow> False | x # xs \<Rightarrow> isHexDigit x \<and> k xs)"
| "matcher (Seq a b) k s = matcher a (matcher b k) s"
| "matcher (Alt a b) k s = (matcher a k s \<or> matcher b k s)"
| "matcher (Opt a) k s = (matcher a k s \<or> k s)"
| "matcher (Star a) k s = repeat_upto (length s) (matcher a) k s"
| "matcher (Plus a) k s = matcher a (\<lambda>s'. repeat_upto (length s') (matcher a) k s') s"
| "matcher (Times n a) k s = repeat_exactly n (matcher a) k s"

text \<open>
  \<open>RegExp.prototype.test\<close> for a pattern without the flags \<open>g\<close> and \<open>y\<close>: is there a match
  starting at some index of the string.
\<close>

primrec test :: "regex \<Rightarrow> jsstring \<Rightarrow> bool" where
  "test r [] = matcher r (\<lambda>_. True) []"
| "test r (x # xs) = (matcher r (\<lambda>_. True) (x # xs) \<or> test r xs)"

text \<open>Writing patterns: a literal word, a sequence, a group of alternatives.\<close>

fun lit :: "string \<Rightarrow> regex" where
  "lit [] = Empty"
| "lit [c] = Chr c"
| "lit (c # cs) = Seq (Chr c) (lit cs)"

fun seq :: "regex list \<Rightarrow> regex" where
  "seq [] = Empty"
| "seq [r] = r"
| "seq (r # rs) = Seq r (seq rs)"

fun alts :: "regex list \<Rightarrow> regex" where
  "alts [] = Empty"
| "alts [r] = r"
| "alts (r # rs) = Alt r (alts rs)"

text \<open>\<open>\s+\<close>, \<open>\s*\<close>, and a word with an optional final \<open>s\<close> such as \<open>rules?\<close>.\<close>

definition ws1 :: regex where
  "ws1 = Plus WhiteSpaceClass"

definition ws0 :: regex where
  "ws0 = Star WhiteSpaceClass"

definition plural :: "string \<Rightarrow> regex" where
  "plural w = Seq (lit w) (Opt (Chr CHR ''s''))"

text \<open>
  A \<open>RegExp\<close> object: the text of the pattern (its \<open>source\<close> property, which
  \<open>detectPromptInjection\<close> inspects) and the syntax tree the text denotes. \<open>bs\<close> writes the
  backslash of the text.
\<close>

record RegExp =
  source :: string
  pattern :: regex

definition bs :: "string \<Rightarrow> string" where
  "bs s = CHR 0x5C # s"

section \<open>Security module (schemas.ts): the pattern catalogue\<close>

text \<open>Instruction override attempts.\<close>

definition re_ignore :: RegExp where
  "re_ignore = \<lparr> source = ''ignore'' @ bs ''s+(previous|all|above)'' @ bs ''s+(instructions?|prompts?|rules?)'',
     pattern = seq [lit ''ignore'', ws1, alts [lit ''previous'', lit ''all'', lit ''above''], ws1,
       alts [plural ''instruction'', plural ''prompt'', plural ''rule'']] \<rparr>"

definition re_disregard :: RegExp where
  "re_disregard = \<lparr> source = ''disregard'' @ bs ''s+(previous|all|above|everything)'',
     pattern = seq [lit ''disregard'', ws1,
       alts [lit ''previous'', lit ''all'', lit ''above'', lit ''everything'']] \<rparr>"

definition re_forget :: RegExp where
  "re_forget = \<lparr> source = ''forget'' @ bs ''s+(everything|all|previous|your'' @ bs ''s+instructions?)'',
     pattern = seq [lit ''forget'', ws1,
       alts [lit ''everything'', lit ''all'', lit ''previous'',
             seq [lit ''your'', ws1, plural ''instruction'']]] \<rparr>"

definition re_override :: RegExp where
  "re_override = \<lparr> source = ''override'' @ bs ''s+(your'' @ bs ''s+)?(instructions?|rules?|constraints?|security)'',
     pattern = seq [lit ''override'', ws1, Opt (seq [lit ''your'', ws1]),
       alts [plural ''instruction'', plural ''rule'', plural ''constraint'', lit ''security'']] \<rparr>"

definition re_bypass :: RegExp where
  "re_bypass = \<lparr> source = ''bypass'' @ bs ''s+(security|validation|checks?|rules?|restrictions?)'',
     pattern = seq [lit ''bypass'', ws1,
       alts [lit ''security'', lit ''validation'', plural ''check'', plural ''rule'',
             plural ''restriction'']] \<rparr>"

text \<open>System prompt manipulation.\<close>

definition re_new_instructions :: RegExp where
  "re_new_instructions = \<lparr> source = ''new'' @ bs ''s+instructions?:'',
     pattern = seq [lit ''new'', ws1, plural ''instruction'', Chr CHR '':''] \<rparr>"

definition re_system_colon :: RegExp where
  "re_system_colon = \<lparr> source = ''system'' @ bs ''s*:'' @ bs ''s*'',
     pattern = seq [lit ''system'', ws0, Chr CHR '':'', ws0] \<rparr>"

definition re_system_tag :: RegExp where
  "re_system_tag = \<lparr> source = bs ''[system'' @ bs '']'', pattern = lit ''[system]'' \<rparr>"

definition re_admin_tag :: RegExp where
  "re_admin_tag = \<lparr> source = bs ''[admin'' @ bs '']'', pattern = lit ''[admin]'' \<rparr>"

definition re_developer_tag :: RegExp where
  "re_developer_tag = \<lparr> source = bs ''[developer'' @ bs '']'', pattern = lit ''[developer]'' \<rparr>"

definition re_act_as :: RegExp where
  "re_act_as = \<lparr> source = ''act'' @ bs ''s+as'' @ bs ''s+(if'' @ bs ''s+)?(you'' @ bs ''s+are''
       @ bs ''s+)?(a'' @ bs ''s+)?different'',
     pattern = seq [lit ''act'', ws1, lit ''as'', ws1, Opt (seq [lit ''if'', ws1]),
       Opt (seq [lit ''you'', ws1, lit ''are'', ws1]), Opt (seq [lit ''a'', ws1]),
       lit ''different''] \<rparr>"

definition re_pretend :: RegExp where
  "re_pretend = \<lparr> source = ''pretend'' @ bs ''s+(you'' @ bs ''s+are|to'' @ bs ''s+be)'',
     pattern = seq [lit ''pretend'', ws1,
       alts [seq [lit ''you'', ws1, lit ''are''], seq [lit ''to'', ws1, lit ''be'']]] \<rparr>"

definition re_you_are_now :: RegExp where
  "re_you_are_now = \<lparr> source = ''you'' @ bs ''s+are'' @ bs ''s+now'' @ bs ''s+a'',
     pattern = seq [lit ''you'', ws1, lit ''are'', ws1, lit ''now'', ws1, lit ''a''] \<rparr>"

text \<open>
  Direct address transfer attempts (potential theft). The three patterns differ in the
  verb only: \<open>verb\s+(all\s+|everything\s+)?(my\s+)?(tokens?|funds?|assets?|balance)?\s*to\s+0x[a-fA-F0-9]{40}\<close>.
\<close>

definition to_address_source :: "string \<Rightarrow> string" where
  "to_address_source verb = verb @ bs ''s+(all'' @ bs ''s+|everything'' @ bs ''s+)?(my'' @ bs ''s+)?''
     @ ''(tokens?|funds?|assets?|balance)?'' @ bs ''s*to'' @ bs ''s+0x[a-fA-F0-9]{40}''"

definition to_address_pattern :: "string \<Rightarrow> regex" where
  "to_address_pattern verb = seq [lit verb, ws1,
     Opt (alts [seq [lit ''all'', ws1], seq [lit ''everything'', ws1]]),
     Opt (seq [lit ''my'', ws1]),
     Opt (alts [plural ''token'', plural ''fund'', plural ''asset'', lit ''balance'']),
     ws0, lit ''to'', ws1, lit ''0x'', Times 40 HexDigitClass]"

definition re_transfer_to_address :: RegExp where
  "re_transfer_to_address =
     \<lparr> source = to_address_source ''transfer'', pattern = to_address_pattern ''transfer'' \<rparr>"

definition re_send_to_address :: RegExp where
  "re_send_to_address =
     \<lparr> source = to_address_source ''send'', pattern = to_address_pattern ''send'' \<rparr>"

definition re_withdraw_to_address :: RegExp where
  "re_withdraw_to_address =
     \<lparr> source = to_address_source ''withdraw'', pattern = to_address_pattern ''withdraw'' \<rparr>"

text \<open>Bulk asset transfer attempts.\<close>

definition re_send_all :: RegExp where
  "re_send_all = \<lparr> source = ''send'' @ bs ''s+all'' @ bs ''s+(my'' @ bs ''s+)?(tokens?|funds?|assets?|balance)''
       @ bs ''s+to'',
     pattern = seq [lit ''send'', ws1, lit ''all'', ws1, Opt (seq [lit ''my'', ws1]),
       alts [plural ''token'', plural ''fund'', plural ''asset'', lit ''balance''], ws1,
       lit ''to''] \<rparr>"

definition re_transfer_all :: RegExp where
  "re_transfer_all = \<lparr> source = ''transfer'' @ bs ''s+all'' @ bs ''s+(my'' @ bs ''s+)?(tokens?|funds?|assets?|balance)''
       @ bs ''s+to'',
     pattern = seq [lit ''transfer'', ws1, lit ''all'', ws1, Opt (seq [lit ''my'', ws1]),
       alts [plural ''token'', plural ''fund'', plural ''asset'', lit ''balance''], ws1,
       lit ''to''] \<rparr>"

definition re_drain :: RegExp where
  "re_drain = \<lparr> source = ''drain'' @ bs ''s+(my'' @ bs ''s+)?(wallet|account|funds?)'',
     pattern = seq [lit ''drain'', ws1, Opt (seq [lit ''my'', ws1]),
       alts [lit ''wallet'', lit ''account'', plural ''fund'']] \<rparr>"

definition re_empty :: RegExp where
  "re_empty = \<lparr> source = ''empty'' @ bs ''s+(my'' @ bs ''s+)?(wallet|account)'',
     pattern = seq [lit ''empty'', ws1, Opt (seq [lit ''my'', ws1]),
       alts [lit ''wallet'', lit ''account'']] \<rparr>"

text \<open>Role manipulation.\<close>

definition re_must_obey :: RegExp where
  "re_must_obey = \<lparr> source = ''you'' @ bs ''s+must'' @ bs ''s+obey'',
     pattern = seq [lit ''you'', ws1, lit ''must'', ws1, lit ''obey''] \<rparr>"

definition re_do_not_refuse :: RegExp where
  "re_do_not_refuse = \<lparr> source = ''do'' @ bs ''s+not'' @ bs ''s+refuse'',
     pattern = seq [lit ''do'', ws1, lit ''not'', ws1, lit ''refuse''] \<rparr>"

definition re_cannot_refuse :: RegExp where
  "re_cannot_refuse = \<lparr> source = ''cannot'' @ bs ''s+refuse'',
     pattern = seq [lit ''cannot'', ws1, lit ''refuse''] \<rparr>"

definition re_must_comply :: RegExp where
  "re_must_comply = \<lparr> source = ''must'' @ bs ''s+comply'',
     pattern = seq [lit ''must'', ws1, lit ''comply''] \<rparr>"

text \<open>Jailbreak attempts.\<close>

definition re_jailbreak :: RegExp where
  "re_jailbreak = \<lparr> source = ''jailbreak'', pattern = lit ''jailbreak'' \<rparr>"

definition re_dan_mode :: RegExp where
  "re_dan_mode = \<lparr> source = ''dan'' @ bs ''s+mode'',
     pattern = seq [lit ''dan'', ws1, lit ''mode''] \<rparr>"

definition re_developer_mode :: RegExp where
  "re_developer_mode = \<lparr> source = ''developer'' @ bs ''s+mode'',
     pattern = seq [lit ''developer'', ws1, lit ''mode''] \<rparr>"

definition re_unrestricted_mode :: RegExp where
  "re_unrestricted_mode = \<lparr> source = ''unrestricted'' @ bs ''s+mode'',
     pattern = seq [lit ''unrestricted'', ws1, lit ''mode''] \<rparr>"

definition PROMPT_INJECTION_PATTERNS :: "RegExp list" where
  "PROMPT_INJECTION_PATTERNS =
     [re_ignore, re_disregard, re_forget, re_override, re_bypass,
      re_new_instructions, re_system_colon, re_system_tag, re_admin_tag, re_developer_tag,
      re_act_as, re_pretend, re_you_are_now,
      re_transfer_to_address, re_send_to_address, re_withdraw_to_address,
      re_send_all, re_transfer_all, re_drain, re_empty,
      re_must_obey, re_do_not_refuse, re_cannot_refuse, re_must_comply,
      re_jailbreak, re_dan_mode, re_developer_mode, re_unrestricted_mode]"

section \<open>Security module (schemas.ts): injection detection and sanitization\<close>

text \<open>
  The argument \<open>message\<close>, here \<open>msg\<close>, is a string (the parameter's type); the guard
  \<open>!message\<close> is then the test for the empty string.
\<close>

definition containsPromptInjection :: "jsstring \<Rightarrow> bool" where
  "containsPromptInjection msg =
     (if msg = [] then False
      else list_ex (\<lambda>p. test (pattern p) msg) PROMPT_INJECTION_PATTERNS)"

datatype Severity = none | low | medium | high

record InjectionDetectionResult =
  detected :: bool
  patterns :: "string list"
  severity :: Severity
  message :: "string option"

definition detectPromptInjection :: "jsstring \<Rightarrow> InjectionDetectionResult" where
  "detectPromptInjection msg =
     (if msg = [] then \<lparr> detected = False, patterns = [], severity = none, message = None \<rparr>
      else
        let matchedPatterns =
              map source (filter (\<lambda>p. test (pattern p) msg) PROMPT_INJECTION_PATTERNS)
        in if length matchedPatterns = 0
           then \<lparr> detected = False, patterns = [], severity = none, message = None \<rparr>
           else
             let hasAddressPattern =
                   list_ex (\<lambda>p. js_includes p ''0x'' \<or> js_includes p ''transfer''
                                 \<or> js_includes p ''send'' \<or> js_includes p ''drain'') matchedPatterns;
                 hasSystemPattern =
                   list_ex (\<lambda>p. js_includes p ''system'' \<or> js_includes p ''admin''
                                 \<or> js_includes p ''developer'') matchedPatterns;
                 sev = (if hasAddressPattern then high
                        else if hasSystemPattern \<or> length matchedPatterns > 2 then medium
                        else low)
             in \<lparr> detected = True, patterns = matchedPatterns, severity = sev,
                  message = Some (if sev = high
                    then ''Potential asset theft attempt detected. Request blocked for security.''
                    else ''Suspicious input pattern detected. Please rephrase your request.'') \<rparr>)"

definition isControlCharacter :: "nat \<Rightarrow> bool" where
  "isControlCharacter c = (c \<le> 8 \<or> c = 11 \<or> c = 12 \<or> (14 \<le> c \<and> c \<le> 31) \<or> c = 127)"

definition trimStart :: "jsstring \<Rightarrow> jsstring" where
  "trimStart s = dropWhile isWhiteSpace s"

definition trimEnd :: "jsstring \<Rightarrow> jsstring" where
  "trimEnd s = rev (dropWhile isWhiteSpace (rev s))"

definition trim :: "jsstring \<Rightarrow> jsstring" where
  "trim s = trimEnd (trimStart s)"

definition MAX_INPUT_LENGTH :: nat where
  "MAX_INPUT_LENGTH = 2000"

definition sanitizeInput :: "jsstring \<Rightarrow> jsstring" where
  "sanitizeInput input =
     (if input = [] then []
      else
        let sanitized = filter (\<lambda>c. \<not> isControlCharacter c) input;
            sanitized = (if length sanitized > MAX_INPUT_LENGTH
                         then take MAX_INPUT_LENGTH sanitized else sanitized)
        in trim sanitized)"

section \<open>Schemas module (schemas.ts): whitelist and parameter validation\<close>

definition SUPPORTED_CHAINS :: "jsstring list" where
  "SUPPORTED_CHAINS =
     map js [''ethereum'', ''base'', ''optimism'', ''arbitrum'', ''polygon'', ''bsc'',
             ''avalanche'']"

text \<open>\<open>TOKEN_WHITELIST\<close>, an object, as the list of its properties.\<close>

definition TOKEN_WHITELIST :: "(jsstring \<times> jsstring list) list" where
  "TOKEN_WHITELIST =
     [(js ''ethereum'', map js [''ETH'', ''USDC'', ''USDT'', ''DAI'', ''WETH'', ''WBTC'', ''LINK'',
          ''UNI'', ''AAVE'', ''CRV'', ''MKR'', ''SNX'', ''COMP'', ''YFI'', ''SUSHI'']),
      (js ''base'', map js [''ETH'', ''USDC'', ''USDBC'', ''DAI'', ''WETH'', ''CBETH'', ''AERO'',
          ''BRETT'', ''DEGEN'']),
      (js ''optimism'', map js [''ETH'', ''USDC'', ''USDT'', ''DAI'', ''WETH'', ''OP'', ''SNX'',
          ''VELO'', ''SUSD'']),
      (js ''arbitrum'', map js [''ETH'', ''USDC'', ''USDT'', ''DAI'', ''WETH'', ''ARB'', ''GMX'',
          ''MAGIC'', ''RDNT'', ''GNS'']),
      (js ''polygon'', map js [''MATIC'', ''USDC'', ''USDT'', ''DAI'', ''WETH'', ''WMATIC'', ''AAVE'',
          ''LINK'', ''CRV'', ''BAL'', ''QUICK'']),
      (js ''bsc'', map js [''BNB'', ''USDC'', ''USDT'', ''BUSD'', ''DAI'', ''WBNB'', ''CAKE'', ''XVS'',
          ''BAKE'', ''ALPACA'']),
      (js ''avalanche'', map js [''AVAX'', ''USDC'', ''USDT'', ''DAI'', ''WAVAX'', ''JOE'', ''PNG'',
          ''QI'', ''GMX''])]"

text \<open>
  \<open>isTokenSupportedOnChain\<close>: \<open>TOKEN_WHITELIST[chain]?.includes(token.toUpperCase()) ?? false\<close>.
\<close>

definition isTokenSupportedOnChain :: "(jsstring \<Rightarrow> jsstring) \<Rightarrow> jsstring \<Rightarrow> jsstring \<Rightarrow> bool" where
  "isTokenSupportedOnChain toUpperCase token chn =
     (case map_of TOKEN_WHITELIST chn of
        None \<Rightarrow> False
      | Some chainTokens \<Rightarrow> toUpperCase token \<in> set chainTokens)"

text \<open>
  A value arriving at a schema: a string, a number, or anything else. The schemas accept
  no value of the last kind, where also an absent property (\<open>undefined\<close>) and the numbers
  \<open>NaN\<close> and \<open>\<plusminus>Infinity\<close>, which the number schema refuses, are counted.
\<close>

datatype jsvalue = JString jsstring | JNumber real | JOther

text \<open>
  The argument of \<open>validateSwapParams\<close> has type \<open>unknown\<close>: an object, of which the schema
  reads the properties \<open>tokenIn\<close>, \<open>tokenOut\<close>, \<open>amount\<close> and \<open>chain\<close> in this order and drops
  every other one, or something that is not an object.
\<close>

datatype unknown_params = Object jsvalue jsvalue jsvalue jsvalue | NotAnObject

record SwapToolParams =
  tokenIn :: jsstring
  tokenOut :: jsstring
  amount :: real
  chain :: jsstring

text \<open>\<open>z.string().min(1).max(10)\<close>, \<open>z.number().positive()\<close> and \<open>chainSchema\<close>.\<close>

definition tokenStringSchema :: "jsvalue \<Rightarrow> jsstring option" where
  "tokenStringSchema v =
     (case v of JString s \<Rightarrow> if 1 \<le> length s \<and> length s \<le> 10 then Some s else None
      | _ \<Rightarrow> None)"

definition positiveNumberSchema :: "jsvalue \<Rightarrow> real option" where
  "positiveNumberSchema v = (case v of JNumber x \<Rightarrow> if 0 < x then Some x else None | _ \<Rightarrow> None)"

definition chainSchema :: "jsvalue \<Rightarrow> jsstring option" where
  "chainSchema v =
     (case v of JString s \<Rightarrow> if s \<in> set SUPPORTED_CHAINS then Some s else None | _ \<Rightarrow> None)"

text \<open>
  \<open>SwapToolParamsSchema.safeParse\<close>: the object schema, then the three refinements. The
  result is the parsed data, or \<open>None\<close> when there is an issue. No schema of the chain
  transforms a value, so the data are the values read.
\<close>

definition SwapToolParamsSchema ::
    "(jsstring \<Rightarrow> jsstring) \<Rightarrow> unknown_params \<Rightarrow> SwapToolParams option" where
  "SwapToolParamsSchema toUpperCase params =
     (case params of
        NotAnObject \<Rightarrow> None
      | Object vIn vOut vAmount vChain \<Rightarrow>
          (case (tokenStringSchema vIn, tokenStringSchema vOut, positiveNumberSchema vAmount,
                 chainSchema vChain) of
             (Some tIn, Some tOut, Some a, Some c) \<Rightarrow>
               let d = \<lparr> tokenIn = tIn, tokenOut = tOut, amount = a, chain = c \<rparr>
               in if toUpperCase (tokenIn d) \<noteq> toUpperCase (tokenOut d)
                     \<and> isTokenSupportedOnChain toUpperCase (tokenIn d) (chain d)
                     \<and> isTokenSupportedOnChain toUpperCase (tokenOut d) (chain d)
                  then Some d else None
           | _ \<Rightarrow> None))"

text \<open>
  \<open>ValidationResult\<close>: \<open>Success d\<close> is \<open>{ success: true, data: d }\<close>; \<open>Failure\<close> is
  \<open>{ success: false, error: \<dots> }\<close>, whose text is joined from the messages of the schema
  library's issues and is not modelled.
\<close>

datatype 'a ValidationResult = Success 'a | Failure

definition validateSwapParams ::
    "(jsstring \<Rightarrow> jsstring) \<Rightarrow> unknown_params \<Rightarrow> SwapToolParams ValidationResult" where
  "validateSwapParams toUpperCase params =
     (case SwapToolParamsSchema toUpperCase params of
        Some d \<Rightarrow> Success d
      | None \<Rightarrow> Failure)"

text \<open>A request in lower case, used to run the validator.\<close>

definition sample_request :: unknown_params where
  "sample_request =
     Object (JString (js ''eth'')) (JString (js ''usdc'')) (JNumber 100) (JString (js ''base''))"

section \<open>Approval state machine: properties\<close>

text \<open>
  C1. An approval whose expiry time is in the past (\<open>now > expiresAt\<close>) is not valid and
  requires user approval, whatever its state.
\<close>

theorem expired_approval_invalid_and_gated:
  assumes "now > expiresAt a"
  shows "\<not> isApprovalValid now a \<and> requiresUserApproval now a"
  using assms by (simp add: isApprovalValid_def requiresUserApproval_def)

theorem expired_approval_invalid_and_gated_witness:
  "(400000::int) > expiresAt (sample_approval\<lparr>state := user_approved\<rparr>)
   \<and> \<not> isApprovalValid 400000 (sample_approval\<lparr>state := user_approved\<rparr>)
   \<and> requiresUserApproval 400000 (sample_approval\<lparr>state := user_approved\<rparr>)"
proof -
  have h: "(400000::int) > expiresAt (sample_approval\<lparr>state := user_approved\<rparr>)"
    by (simp add: sample_approval_def createTransactionApproval_def APPROVAL_EXPIRATION_MS_def)
  from expired_approval_invalid_and_gated [OF h] h show ?thesis by simp
qed

text \<open>
  C2. The claim that \<open>user_approved\<close> and \<open>user_rejected\<close> are terminal fails on the
  transition functions: neither looks at the current state. An approval that the user has
  approved becomes \<open>user_rejected\<close> under a later \<open>rejectTransaction\<close>, and a rejected one
  becomes \<open>user_approved\<close> under a later \<open>approveTransaction\<close>.
\<close>

theorem approved_then_rejected_counterexample:
  "state (approveTransaction 1500 sample_approval) = user_approved
   \<and> state (rejectTransaction 2000 (approveTransaction 1500 sample_approval)) = user_rejected
   \<and> state (rejectTransaction 1500 sample_approval) = user_rejected
   \<and> state (approveTransaction 2000 (rejectTransaction 1500 sample_approval)) = user_approved"
  by (simp add: approveTransaction_def rejectTransaction_def sample_approval_def
      createTransactionApproval_def APPROVAL_EXPIRATION_MS_def)

text \<open>
  C2, amended. The resulting state is decided by the action and the clock alone, whatever
  the state before: \<open>rejectTransaction\<close> always yields \<open>user_rejected\<close>, and
  \<open>approveTransaction\<close> yields \<open>user_approved\<close> up to the expiry time and \<open>expired\<close>
  after it. So a decision survives only the repetition of the same action.
\<close>

theorem transition_state_ignores_prior_state:
  "state (rejectTransaction now a) = user_rejected
   \<and> state (approveTransaction now a) = (if now > expiresAt a then expired else user_approved)"
  by (simp add: approveTransaction_def rejectTransaction_def)

theorem transition_state_ignores_prior_state_witness:
  "state (rejectTransaction 2000 (rejectTransaction 1500 sample_approval)) = user_rejected
   \<and> state (approveTransaction 2000 (approveTransaction 1500 sample_approval)) = user_approved
   \<and> state (approveTransaction 400000 (approveTransaction 1500 sample_approval)) = expired"
  using transition_state_ignores_prior_state [of 2000 "rejectTransaction 1500 sample_approval"]
    transition_state_ignores_prior_state [of 2000 "approveTransaction 1500 sample_approval"]
    transition_state_ignores_prior_state [of 400000 "approveTransaction 1500 sample_approval"]
  by (simp add: approveTransaction_def sample_approval_def
      createTransactionApproval_def APPROVAL_EXPIRATION_MS_def)

text \<open>
  C3. Past the expiry time \<open>approveTransaction\<close> only sets the state to \<open>expired\<close>, but
  \<open>rejectTransaction\<close> does not test the expiry: it returns \<open>user_rejected\<close> and stamps
  \<open>rejectedAt\<close>. The claim fails for the rejection.
\<close>

theorem reject_after_expiry_counterexample:
  "(400000::int) > expiresAt sample_approval
   \<and> state (rejectTransaction 400000 sample_approval) = user_rejected
   \<and> rejectedAt (rejectTransaction 400000 sample_approval) = Some 400000
   \<and> rejectedAt sample_approval = None"
  by (simp add: rejectTransaction_def sample_approval_def
      createTransactionApproval_def APPROVAL_EXPIRATION_MS_def)

text \<open>
  C3, amended. Past the expiry time, \<open>approveTransaction\<close> returns the approval with state
  \<open>expired\<close> and every other field unchanged, while \<open>rejectTransaction\<close> still honours the
  rejection: state \<open>user_rejected\<close>, \<open>rejectedAt = now\<close>, every other field unchanged.
\<close>

theorem expired_approve_and_reject_frame:
  assumes "now > expiresAt a"
  shows "approveTransaction now a = a\<lparr>state := expired\<rparr>
   \<and> id (approveTransaction now a) = id a
   \<and> createdAt (approveTransaction now a) = createdAt a
   \<and> expiresAt (approveTransaction now a) = expiresAt a
   \<and> approvedAt (approveTransaction now a) = approvedAt a
   \<and> rejectedAt (approveTransaction now a) = rejectedAt a
   \<and> transactionDetails (approveTransaction now a) = transactionDetails a
   \<and> state (rejectTransaction now a) = user_rejected
   \<and> rejectedAt (rejectTransaction now a) = Some now
   \<and> id (rejectTransaction now a) = id a
   \<and> createdAt (rejectTransaction now a) = createdAt a
   \<and> expiresAt (rejectTransaction now a) = expiresAt a
   \<and> approvedAt (rejectTransaction now a) = approvedAt a
   \<and> transactionDetails (rejectTransaction now a) = transactionDetails a"
  using assms by (simp add: approveTransaction_def rejectTransaction_def)

theorem expired_approve_and_reject_frame_witness:
  "(400000::int) > expiresAt sample_approval
   \<and> approveTransaction 400000 sample_approval = sample_approval\<lparr>state := expired\<rparr>
   \<and> state (rejectTransaction 400000 sample_approval) = user_rejected
   \<and> rejectedAt (rejectTransaction 400000 sample_approval) = Some 400000"
proof -
  have h: "(400000::int) > expiresAt sample_approval"
    by (simp add: sample_approval_def createTransactionApproval_def APPROVAL_EXPIRATION_MS_def)
  from expired_approve_and_reject_frame [OF h] h show ?thesis by simp
qed

section \<open>Injection detection: running the catalogue\<close>

lemmas catalogue_defs =
  re_ignore_def re_disregard_def re_forget_def re_override_def re_bypass_def
  re_new_instructions_def re_system_colon_def re_system_tag_def re_admin_tag_def
  re_developer_tag_def re_act_as_def re_pretend_def re_you_are_now_def
  re_transfer_to_address_def re_send_to_address_def re_withdraw_to_address_def
  re_send_all_def re_transfer_all_def re_drain_def re_empty_def
  re_must_obey_def re_do_not_refuse_def re_cannot_refuse_def re_must_comply_def
  re_jailbreak_def re_dan_mode_def re_developer_mode_def re_unrestricted_mode_def

lemmas regex_defs =
  to_address_pattern_def plural_def ws1_def ws0_def canonicalize_def isWhiteSpace_def
  isHexDigit_def

lemma repeat_exactly_numeral:
  "repeat_exactly (numeral n) f k s = f (repeat_exactly (pred_numeral n) f k) s"
  by (simp add: numeral_eq_Suc)

lemma js_Cons_not_Nil: "js (c # cs) \<noteq> []"
  by (simp add: js_def)

text \<open>No pattern matches the empty string.\<close>

lemma hits_empty_string:
  "filter (\<lambda>p. test (pattern p) []) PROMPT_INJECTION_PATTERNS = []"
  by (simp add: PROMPT_INJECTION_PATTERNS_def catalogue_defs regex_defs repeat_exactly_numeral)

text \<open>The patterns that match each of a few messages.\<close>

lemma hits_swap_request:
  "filter (\<lambda>p. test (pattern p) (js ''Swap 100 USDC for ETH on Base''))
     PROMPT_INJECTION_PATTERNS = []"
  by (simp add: PROMPT_INJECTION_PATTERNS_def catalogue_defs regex_defs js_def)

lemma hits_balance_request:
  "filter (\<lambda>p. test (pattern p) (js ''Check my ETH balance'')) PROMPT_INJECTION_PATTERNS = []"
  by (simp add: PROMPT_INJECTION_PATTERNS_def catalogue_defs regex_defs js_def)

lemma hits_balance_question:
  "filter (\<lambda>p. test (pattern p) (js ''What is my USDC balance on Ethereum?''))
     PROMPT_INJECTION_PATTERNS = []"
  by (simp add: PROMPT_INJECTION_PATTERNS_def catalogue_defs regex_defs js_def)

lemma hits_act_as:
  "filter (\<lambda>p. test (pattern p) (js ''act as different'')) PROMPT_INJECTION_PATTERNS
   = [re_act_as]"
  by (simp add: PROMPT_INJECTION_PATTERNS_def catalogue_defs regex_defs js_def)

lemma hits_empty_wallet:
  "filter (\<lambda>p. test (pattern p) (js ''empty my wallet'')) PROMPT_INJECTION_PATTERNS
   = [re_empty]"
  by (simp add: PROMPT_INJECTION_PATTERNS_def catalogue_defs regex_defs js_def)

lemma hits_developer_mode:
  "filter (\<lambda>p. test (pattern p) (js ''developer mode'')) PROMPT_INJECTION_PATTERNS
   = [re_developer_mode]"
  by (simp add: PROMPT_INJECTION_PATTERNS_def catalogue_defs regex_defs js_def)

lemma hits_drain_wallet:
  "filter (\<lambda>p. test (pattern p) (js ''Drain my  wallet'')) PROMPT_INJECTION_PATTERNS
   = [re_drain]"
  by (simp add: PROMPT_INJECTION_PATTERNS_def catalogue_defs regex_defs js_def)

text \<open>
  Which pattern texts contain the words \<open>detectPromptInjection\<close> looks for, in the order of
  the catalogue.
\<close>

lemma address_sources:
  "map (\<lambda>p. js_includes (source p) ''0x'' \<or> js_includes (source p) ''transfer''
             \<or> js_includes (source p) ''send'' \<or> js_includes (source p) ''drain'')
     PROMPT_INJECTION_PATTERNS
   = [False, False, False, False, False,
      False, False, False, False, False, False, False, False,
      True, True, True,
      True, True, True, False,
      False, False, False, False,
      False, False, False, False]"
  by code_simp

lemma system_sources:
  "map (\<lambda>p. js_includes (source p) ''system'' \<or> js_includes (source p) ''admin''
             \<or> js_includes (source p) ''developer'')
     PROMPT_INJECTION_PATTERNS
   = [False, False, False, False, False,
      False, True, True, True, True, False, False, False,
      False, False, False,
      False, False, False, False,
      False, False, False, False,
      False, False, True, False]"
  by code_simp

lemma list_ex_map_filter:
  "list_ex Q (map f (filter P xs)) = list_ex (\<lambda>x. P x \<and> Q (f x)) xs"
  by (induction xs) auto

lemma list_ex_zip_flags:
  "list_ex (\<lambda>x. P x \<and> A x) xs = list_ex (\<lambda>(x, b). P x \<and> b) (zip xs (map A xs))"
  by (induction xs) auto

lemma hasAddressPattern_iff:
  "list_ex (\<lambda>p. js_includes p ''0x'' \<or> js_includes p ''transfer''
                \<or> js_includes p ''send'' \<or> js_includes p ''drain'')
     (map source (filter (\<lambda>p. test (pattern p) m) PROMPT_INJECTION_PATTERNS))
   = (test (pattern re_transfer_to_address) m \<or> test (pattern re_send_to_address) m
      \<or> test (pattern re_withdraw_to_address) m \<or> test (pattern re_send_all) m
      \<or> test (pattern re_transfer_all) m \<or> test (pattern re_drain) m)"
  unfolding list_ex_map_filter list_ex_zip_flags address_sources
  by (simp add: PROMPT_INJECTION_PATTERNS_def)

lemma hasSystemPattern_iff:
  "list_ex (\<lambda>p. js_includes p ''system'' \<or> js_includes p ''admin''
                \<or> js_includes p ''developer'')
     (map source (filter (\<lambda>p. test (pattern p) m) PROMPT_INJECTION_PATTERNS))
   = (test (pattern re_system_colon) m \<or> test (pattern re_system_tag) m
      \<or> test (pattern re_admin_tag) m \<or> test (pattern re_developer_tag) m
      \<or> test (pattern re_developer_mode) m)"
  unfolding list_ex_map_filter list_ex_zip_flags system_sources
  by (simp add: PROMPT_INJECTION_PATTERNS_def)

lemma list_ex_filter_conv: "list_ex P xs = (filter P xs \<noteq> [])"
  by (induction xs) auto

section \<open>Injection detection: properties\<close>

text \<open>
  C4. The stated severity policy fails on the code, which does not go by the class of a
  matched pattern but by words in its text. \<open>act as \<dots> different\<close> stands with the system
  prompt manipulation patterns, yet a message matching it alone gets \<open>low\<close>, not \<open>medium\<close>;
  \<open>empty my wallet\<close> stands with the bulk asset transfer patterns, yet gets \<open>low\<close>, not
  \<open>high\<close>; and \<open>developer mode\<close>, a jailbreak pattern matched alone, gets \<open>medium\<close>, not
  \<open>low\<close>.
\<close>

theorem severity_by_class_counterexample:
  "patterns (detectPromptInjection (js ''act as different'')) = [source re_act_as]
   \<and> severity (detectPromptInjection (js ''act as different'')) = low
   \<and> patterns (detectPromptInjection (js ''empty my wallet'')) = [source re_empty]
   \<and> severity (detectPromptInjection (js ''empty my wallet'')) = low
   \<and> patterns (detectPromptInjection (js ''developer mode'')) = [source re_developer_mode]
   \<and> severity (detectPromptInjection (js ''developer mode'')) = medium"
  by (simp add: detectPromptInjection_def Let_def js_Cons_not_Nil hits_act_as
      hits_empty_wallet hits_developer_mode re_act_as_def re_empty_def re_developer_mode_def
      bs_def)

text \<open>
  C4, amended. For every message: when no pattern matches, the severity is \<open>none\<close> and
  \<open>detected\<close> is false. Otherwise the severity is \<open>high\<close> when one of the three
  transfer/send/withdraw-to-address patterns, the send-all, the transfer-all or the drain
  pattern matches (the patterns whose text contains \<open>0x\<close>, \<open>transfer\<close>, \<open>send\<close> or
  \<open>drain\<close>); otherwise \<open>medium\<close> when one of \<open>system:\<close>, \<open>[system]\<close>, \<open>[admin]\<close>,
  \<open>[developer]\<close> or \<open>developer mode\<close> matches (the patterns whose text contains \<open>system\<close>,
  \<open>admin\<close> or \<open>developer\<close>) or more than two patterns match; otherwise \<open>low\<close>.
\<close>

theorem severity_by_pattern_text:
  "severity (detectPromptInjection m) =
     (if filter (\<lambda>p. test (pattern p) m) PROMPT_INJECTION_PATTERNS = [] then none
      else if test (pattern re_transfer_to_address) m \<or> test (pattern re_send_to_address) m
              \<or> test (pattern re_withdraw_to_address) m \<or> test (pattern re_send_all) m
              \<or> test (pattern re_transfer_all) m \<or> test (pattern re_drain) m
           then high
      else if test (pattern re_system_colon) m \<or> test (pattern re_system_tag) m
              \<or> test (pattern re_admin_tag) m \<or> test (pattern re_developer_tag) m
              \<or> test (pattern re_developer_mode) m
              \<or> 2 < length (filter (\<lambda>p. test (pattern p) m) PROMPT_INJECTION_PATTERNS)
           then medium
      else low)
   \<and> detected (detectPromptInjection m)
       = (filter (\<lambda>p. test (pattern p) m) PROMPT_INJECTION_PATTERNS \<noteq> [])"
proof (cases "m = []")
  case True
  with hits_empty_string show ?thesis
    by (simp add: detectPromptInjection_def)
next
  case False
  show ?thesis
  proof (cases "filter (\<lambda>p. test (pattern p) m) PROMPT_INJECTION_PATTERNS = []")
    case True
    with \<open>m \<noteq> []\<close> show ?thesis
      by (simp add: detectPromptInjection_def)
  next
    case hit: False
    have "severity (detectPromptInjection m) =
        (if list_ex (\<lambda>p. js_includes p ''0x'' \<or> js_includes p ''transfer''
                \<or> js_includes p ''send'' \<or> js_includes p ''drain'')
              (map source (filter (\<lambda>p. test (pattern p) m) PROMPT_INJECTION_PATTERNS))
         then high
         else if list_ex (\<lambda>p. js_includes p ''system'' \<or> js_includes p ''admin''
                \<or> js_includes p ''developer'')
              (map source (filter (\<lambda>p. test (pattern p) m) PROMPT_INJECTION_PATTERNS))
              \<or> 2 < length (filter (\<lambda>p. test (pattern p) m) PROMPT_INJECTION_PATTERNS)
         then medium else low)"
      using \<open>m \<noteq> []\<close> hit by (simp add: detectPromptInjection_def Let_def)
    moreover have "detected (detectPromptInjection m)"
      using \<open>m \<noteq> []\<close> hit by (simp add: detectPromptInjection_def Let_def)
    ultimately show ?thesis
      using hit unfolding hasAddressPattern_iff hasSystemPattern_iff by simp
  qed
qed

theorem severity_by_pattern_text_witness:
  "severity (detectPromptInjection (js ''Drain my  wallet'')) = high
   \<and> detected (detectPromptInjection (js ''Drain my  wallet''))"
proof -
  have "test (pattern re_drain) (js ''Drain my  wallet'')"
    by (simp add: re_drain_def regex_defs js_def)
  with severity_by_pattern_text [of "js ''Drain my  wallet''"] show ?thesis
    by (simp add: hits_drain_wallet)
qed

text \<open>
  C5. The three canonical requests are not flagged: the result has \<open>detected = false\<close> and
  severity \<open>none\<close>.
\<close>

theorem canonical_requests_not_flagged:
  "detected (detectPromptInjection (js ''Swap 100 USDC for ETH on Base'')) = False
   \<and> severity (detectPromptInjection (js ''Swap 100 USDC for ETH on Base'')) = none
   \<and> detected (detectPromptInjection (js ''Check my ETH balance'')) = False
   \<and> severity (detectPromptInjection (js ''Check my ETH balance'')) = none
   \<and> detected (detectPromptInjection (js ''What is my USDC balance on Ethereum?'')) = False
   \<and> severity (detectPromptInjection (js ''What is my USDC balance on Ethereum?'')) = none"
  by (simp add: detectPromptInjection_def Let_def hits_swap_request hits_balance_request
      hits_balance_question)

text \<open>
  C10. The two entry points agree on every string: \<open>containsPromptInjection\<close> is true
  exactly when \<open>detectPromptInjection\<close> reports \<open>detected\<close>.
\<close>

theorem containsPromptInjection_iff_detected:
  "containsPromptInjection s = detected (detectPromptInjection s)"
  by (simp add: containsPromptInjection_def detectPromptInjection_def Let_def
      list_ex_filter_conv)

theorem containsPromptInjection_iff_detected_witness:
  "containsPromptInjection (js ''Drain my  wallet'')
   \<and> detected (detectPromptInjection (js ''Drain my  wallet''))
   \<and> \<not> containsPromptInjection (js ''Check my ETH balance'')
   \<and> \<not> detected (detectPromptInjection (js ''Check my ETH balance''))"
  using containsPromptInjection_iff_detected [of "js ''Drain my  wallet''"]
    containsPromptInjection_iff_detected [of "js ''Check my ETH balance''"]
  by (simp add: detectPromptInjection_def Let_def js_Cons_not_Nil hits_drain_wallet
      hits_balance_request)

section \<open>Sanitization: properties\<close>

lemma set_trim_subset: "set (trim s) \<subseteq> set s"
proof -
  have "set (trimEnd t) \<subseteq> set t" for t
    unfolding trimEnd_def using set_dropWhileD [of _ isWhiteSpace "rev t"] by auto
  moreover have "set (trimStart s) \<subseteq> set s"
    unfolding trimStart_def using set_dropWhileD [of _ isWhiteSpace s] by auto
  ultimately show ?thesis unfolding trim_def by blast
qed

lemma length_trim_le: "length (trim s) \<le> length s"
proof -
  have "length (trimEnd t) \<le> length t" for t
    unfolding trimEnd_def using length_dropWhile_le [of isWhiteSpace "rev t"] by simp
  moreover have "length (trimStart s) \<le> length s"
    unfolding trimStart_def by (rule length_dropWhile_le)
  ultimately show ?thesis unfolding trim_def using le_trans by blast
qed

lemma trimEnd_idem: "trimEnd (trimEnd t) = trimEnd t"
  by (simp add: trimEnd_def)

lemma trimStart_trimEnd_trimStart: "trimStart (trimEnd (trimStart s)) = trimEnd (trimStart s)"
proof (cases "trimStart s")
  case Nil
  show ?thesis unfolding Nil by (simp add: trimEnd_def trimStart_def)
next
  case (Cons x xs)
  then have nx: "\<not> isWhiteSpace x"
    unfolding trimStart_def using hd_dropWhile [of isWhiteSpace s] by (metis list.sel(1) list.simps(3))
  have "dropWhile isWhiteSpace (rev xs @ [x]) = dropWhile isWhiteSpace (rev xs) @ [x]
        \<or> dropWhile isWhiteSpace (rev xs @ [x]) = [x]"
    using nx by (simp add: dropWhile_append)
  then obtain u where u: "dropWhile isWhiteSpace (rev xs @ [x]) = u @ [x]"
    by (metis append_Nil)
  have "trimEnd (x # xs) = x # rev u"
    by (simp add: trimEnd_def u)
  then show ?thesis using nx Cons by (simp add: trimStart_def)
qed

lemma trim_idem: "trim (trim s) = trim s"
  by (simp add: trim_def trimStart_trimEnd_trimStart trimEnd_idem)

lemma sanitizeInput_eq:
  "sanitizeInput s = trim (take MAX_INPUT_LENGTH (filter (\<lambda>c. \<not> isControlCharacter c) s))"
  by (simp add: sanitizeInput_def Let_def trim_def trimStart_def trimEnd_def)

lemma sanitizeInput_no_control: "c \<in> set (sanitizeInput s) \<Longrightarrow> \<not> isControlCharacter c"
proof -
  assume "c \<in> set (sanitizeInput s)"
  then have "c \<in> set (take MAX_INPUT_LENGTH (filter (\<lambda>c. \<not> isControlCharacter c) s))"
    using set_trim_subset unfolding sanitizeInput_eq by blast
  then have "c \<in> set (filter (\<lambda>c. \<not> isControlCharacter c) s)"
    by (rule in_set_takeD)
  then show ?thesis by simp
qed

lemma sanitizeInput_length: "length (sanitizeInput s) \<le> MAX_INPUT_LENGTH"
proof -
  have "length (sanitizeInput s)
        \<le> length (take MAX_INPUT_LENGTH (filter (\<lambda>c. \<not> isControlCharacter c) s))"
    unfolding sanitizeInput_eq by (rule length_trim_le)
  then show ?thesis by simp
qed

lemma sanitizeInput_idem: "sanitizeInput (sanitizeInput s) = sanitizeInput s"
proof -
  let ?r = "sanitizeInput s"
  have f: "filter (\<lambda>c. \<not> isControlCharacter c) ?r = ?r"
    using sanitizeInput_no_control by (simp add: filter_id_conv)
  have t: "take MAX_INPUT_LENGTH ?r = ?r"
    using sanitizeInput_length by simp
  have "sanitizeInput ?r = trim ?r"
    by (subst sanitizeInput_eq) (simp add: f t)
  also have "\<dots> = ?r"
    by (subst (1 2) sanitizeInput_eq) (rule trim_idem)
  finally show ?thesis .
qed

text \<open>
  C6. \<open>sanitizeInput\<close> is a total function on strings, it is idempotent, its result has
  at most 2000 code units, and none of them is a control character of the ranges
  0x00 to 0x08, 0x0B, 0x0C, 0x0E to 0x1F, 0x7F.
\<close>

theorem sanitizeInput_idempotent_bounded_clean:
  "sanitizeInput (sanitizeInput s) = sanitizeInput s
   \<and> length (sanitizeInput s) \<le> 2000
   \<and> list_all (\<lambda>c. \<not> (c \<le> 8 \<or> c = 11 \<or> c = 12 \<or> (14 \<le> c \<and> c \<le> 31) \<or> c = 127))
         (sanitizeInput s)"
  using sanitizeInput_idem [of s] sanitizeInput_length [of s] sanitizeInput_no_control [of _ s]
  by (simp add: MAX_INPUT_LENGTH_def list_all_iff isControlCharacter_def)

theorem sanitizeInput_idempotent_bounded_clean_witness:
  "sanitizeInput ([32, 9, 0, 7] @ js ''Swap 1 ETH'' @ [127, 32, 10]) = js ''Swap 1 ETH''
   \<and> sanitizeInput (js ''Swap 1 ETH'') = js ''Swap 1 ETH''"
proof -
  have e: "sanitizeInput ([32, 9, 0, 7] @ js ''Swap 1 ETH'' @ [127, 32, 10]) = js ''Swap 1 ETH''"
    by (simp add: sanitizeInput_def js_def Let_def trim_def trimStart_def trimEnd_def
        isWhiteSpace_def isControlCharacter_def MAX_INPUT_LENGTH_def)
  from sanitizeInput_idempotent_bounded_clean [of "[32, 9, 0, 7] @ js ''Swap 1 ETH'' @ [127, 32, 10]"]
  show ?thesis unfolding e by simp
qed

section \<open>Retry: the loop\<close>










text \<open>Rounding does not pass an integer bound.\<close>

lemma Math_round_le: "x \<le> of_int n \<Longrightarrow> Math_round x \<le> of_int n"
  unfolding Math_round_def by (simp add: floor_le_iff)

section \<open>Retry and backoff: properties\<close>





text \<open>
  C9. Under the default configuration, for every attempt from 0 to 10 and every jitter
  sample \<open>r\<close> of \<open>Math.random()\<close> (from 0 up to, not including, 1), the delay lies between 0
  and \<open>maxDelayMs \<times> (1 + jitterFactor)\<close>.
\<close>

theorem backoff_delay_bounded:
  assumes "attempt \<le> 10" and "0 \<le> r" and "r < 1"
  shows "0 \<le> calculateBackoffDelay r attempt DEFAULT_BACKOFF_CONFIG
   \<and> calculateBackoffDelay r attempt DEFAULT_BACKOFF_CONFIG
       \<le> maxDelayMs DEFAULT_BACKOFF_CONFIG * (1 + jitterFactor DEFAULT_BACKOFF_CONFIG)"
proof -
  define b :: real where "b = min (1000 * 2 ^ attempt) 30000"
  define j :: real where "j = b * 0.1 * (r * 2 - 1)"
  have b: "0 < b" "b \<le> 30000" unfolding b_def by simp_all
  have "b * 0.1 * (r * 2 - 1) \<le> b * 0.1 * 1"
    using b assms by (intro mult_left_mono) simp_all
  then have "j \<le> b / 10" unfolding j_def by simp
  with b have "b + j \<le> of_int 33000" by simp
  then have r: "Math_round (b + j) \<le> of_int 33000"
    by (rule Math_round_le)
  have "calculateBackoffDelay r attempt DEFAULT_BACKOFF_CONFIG = max 0 (Math_round (b + j))"
    by (simp add: calculateBackoffDelay_def DEFAULT_BACKOFF_CONFIG_def Let_def b_def j_def)
  with r show ?thesis
    by (simp add: DEFAULT_BACKOFF_CONFIG_def)
qed

theorem backoff_delay_bounded_witness:
  "(2::nat) \<le> 10 \<and> (0::real) \<le> 3 / 4 \<and> (3 / 4 :: real) < 1
   \<and> calculateBackoffDelay (3 / 4) 2 DEFAULT_BACKOFF_CONFIG = 4200
   \<and> 0 \<le> calculateBackoffDelay (3 / 4) 2 DEFAULT_BACKOFF_CONFIG
   \<and> calculateBackoffDelay (3 / 4) 2 DEFAULT_BACKOFF_CONFIG
       \<le> maxDelayMs DEFAULT_BACKOFF_CONFIG * (1 + jitterFactor DEFAULT_BACKOFF_CONFIG)"
proof -
  have v: "calculateBackoffDelay (3 / 4) 2 DEFAULT_BACKOFF_CONFIG = 4200"
    by (simp add: calculateBackoffDelay_def DEFAULT_BACKOFF_CONFIG_def Let_def Math_round_def)
  from backoff_delay_bounded [of 2 "3 / 4"] v show ?thesis by simp
qed


section \<open>Parameter validation: properties\<close>

lemma validate_sample_request:
  "validateSwapParams ascii_toUpperCase sample_request
     = Success \<lparr> tokenIn = js ''eth'', tokenOut = js ''usdc'', amount = 100, chain = js ''base'' \<rparr>"
  by (simp add: validateSwapParams_def SwapToolParamsSchema_def sample_request_def
      tokenStringSchema_def positiveNumberSchema_def chainSchema_def SUPPORTED_CHAINS_def
      isTokenSupportedOnChain_def TOKEN_WHITELIST_def ascii_toUpperCase_def js_def Let_def)

text \<open>
  C7. The claim that an accepted request comes back with its tokens in upper case fails:
  the request \<open>{tokenIn: "eth", tokenOut: "usdc", amount: 100, chain: "base"}\<close> is accepted and
  the data returned carry \<open>eth\<close> and \<open>usdc\<close>, which are not their upper-case forms \<open>ETH\<close>
  and \<open>USDC\<close>.
\<close>

theorem validateSwapParams_casing_counterexample:
  "validateSwapParams ascii_toUpperCase sample_request
     = Success \<lparr> tokenIn = js ''eth'', tokenOut = js ''usdc'', amount = 100, chain = js ''base'' \<rparr>
   \<and> ascii_toUpperCase (js ''eth'') = js ''ETH'' \<and> js ''eth'' \<noteq> js ''ETH''
   \<and> ascii_toUpperCase (js ''usdc'') = js ''USDC'' \<and> js ''usdc'' \<noteq> js ''USDC''"
  by (simp add: validate_sample_request) (simp add: ascii_toUpperCase_def js_def)

text \<open>
  C7, amended. For every input that \<open>validateSwapParams\<close> accepts, the data returned are the
  four values of the input as the caller gave them, the tokens in the caller's casing. The
  chain is one of the seven lower-case names of \<open>SUPPORTED_CHAINS\<close> (any other casing is
  refused, not converted), and it is the upper-cased tokens that are on the chain's
  whitelist and differ.
\<close>

theorem validateSwapParams_returns_input_as_given:
  assumes "validateSwapParams toUpperCase params = Success d"
  shows "params = Object (JString (tokenIn d)) (JString (tokenOut d)) (JNumber (amount d))
                    (JString (chain d))
   \<and> chain d \<in> set SUPPORTED_CHAINS
   \<and> isTokenSupportedOnChain toUpperCase (tokenIn d) (chain d)
   \<and> isTokenSupportedOnChain toUpperCase (tokenOut d) (chain d)
   \<and> toUpperCase (tokenIn d) \<noteq> toUpperCase (tokenOut d)"
  using assms
  by (auto simp: validateSwapParams_def SwapToolParamsSchema_def tokenStringSchema_def
      positiveNumberSchema_def chainSchema_def Let_def
      split: option.splits unknown_params.splits jsvalue.splits if_splits)


theorem validateSwapParams_returns_input_as_given_witness:
  "sample_request = Object (JString (js ''eth'')) (JString (js ''usdc'')) (JNumber 100)
                      (JString (js ''base''))
   \<and> js ''base'' \<in> set SUPPORTED_CHAINS
   \<and> isTokenSupportedOnChain ascii_toUpperCase (js ''eth'') (js ''base'')
   \<and> isTokenSupportedOnChain ascii_toUpperCase (js ''usdc'') (js ''base'')
   \<and> ascii_toUpperCase (js ''eth'') \<noteq> ascii_toUpperCase (js ''usdc'')"
  using validateSwapParams_returns_input_as_given [OF validate_sample_request]
  by simp

end
